theory Spec2Isabelle
  imports Main
begin

section \<open>Notifications\<close>

text \<open>
  The embedding follows \<^verbatim>\<open>src/desktop_notifier/base.py\<close>. Python objects are
  compared by identity (class \<^verbatim>\<open>Notification\<close> defines neither \<^verbatim>\<open>__eq__\<close> nor
  \<^verbatim>\<open>__bool__\<close>), and \<^verbatim>\<open>send\<close> mutates the notification it is given, so
  notifications live in an explicit store and the notifier holds references to them.
\<close>

datatype NotificationLevel = Critical | Normal | Low

text \<open>A platform identifier is \<^verbatim>\<open>Union[str, int]\<close>.\<close>

datatype ident = IntId int | StrId string

text \<open>Callbacks are opaque to the notifier; a callback is a handle.\<close>

type_synonym callback = nat

record Notification =
  "identifier" :: "ident option"
  title :: string
  message :: string
  urgency :: NotificationLevel
  icon :: "string option"
  buttons :: "(string \<times> callback) list"
  reply_field :: bool
  on_clicked :: "callback option"
  on_dismissed :: "callback option"
  on_replied :: "callback option"
  attachment :: "string option"
  sound :: bool
  thread :: "string option"

text \<open>\<^verbatim>\<open>Notification.__init__\<close>: the identifier starts as \<^verbatim>\<open>None\<close>;
  \<^verbatim>\<open>buttons or dict()\<close> turns a missing dictionary into the empty one.\<close>

definition Notification_init ::
  "string \<Rightarrow> string \<Rightarrow> NotificationLevel \<Rightarrow> string option \<Rightarrow>
   (string \<times> callback) list option \<Rightarrow> bool \<Rightarrow> callback option \<Rightarrow> callback option \<Rightarrow>
   callback option \<Rightarrow> string option \<Rightarrow> bool \<Rightarrow> string option \<Rightarrow> Notification" where
  "Notification_init title_arg message_arg urgency_arg icon_arg buttons_arg reply_field_arg
     on_clicked_arg on_dismissed_arg on_replied_arg attachment_arg sound_arg thread_arg =
   \<lparr> identifier = None,
     title = title_arg,
     message = message_arg,
     urgency = urgency_arg,
     icon = icon_arg,
     buttons = (case buttons_arg of None \<Rightarrow> [] | Some d \<Rightarrow> d),
     reply_field = reply_field_arg,
     on_clicked = on_clicked_arg,
     on_dismissed = on_dismissed_arg,
     on_replied = on_replied_arg,
     attachment = attachment_arg,
     sound = sound_arg,
     thread = thread_arg \<rparr>"

text \<open>The constructor called with its default arguments, the icon apart.\<close>

definition Notification_plain :: "string \<Rightarrow> string \<Rightarrow> string option \<Rightarrow> Notification" where
  "Notification_plain title_arg message_arg icon_arg =
   Notification_init title_arg message_arg Normal icon_arg None False None None None None False None"

text \<open>Python truthiness of the two values the code tests: \<^verbatim>\<open>None\<close>, the integer
  \<^verbatim>\<open>0\<close> and the empty string are false.\<close>

fun truthy_identifier :: "ident option \<Rightarrow> bool" where
  "truthy_identifier None = False"
| "truthy_identifier (Some (IntId n)) = (n \<noteq> 0)"
| "truthy_identifier (Some (StrId s)) = (s \<noteq> [])"

fun truthy_icon :: "string option \<Rightarrow> bool" where
  "truthy_icon None = False"
| "truthy_icon (Some s) = (s \<noteq> [])"

section \<open>Exceptions, the backend and the bounded deque\<close>

datatype exception = IndexError | ValueError | KeyError | BackendError | BackendBaseException

text \<open>
  \<^verbatim>\<open>_send\<close>, \<^verbatim>\<open>_clear\<close> and \<^verbatim>\<open>_clear_all\<close> are implemented by platform
  subclasses. A call returns a value, raises an \<^verbatim>\<open>Exception\<close>, or raises
  an exception outside \<^verbatim>\<open>Exception\<close> (\<^verbatim>\<open>asyncio.CancelledError\<close>,
  \<^verbatim>\<open>KeyboardInterrupt\<close>, \<^verbatim>\<open>SystemExit\<close>), which \<^verbatim>\<open>except Exception\<close>
  does not catch; which of the three happens is an input of the model. Every call that
  is made is recorded, the notification of a \<^verbatim>\<open>_send\<close> with its fields at the time
  of the call.
\<close>

datatype 'a outcome = Returns 'a | Raises | Raises_BaseException

type_synonym ref = nat

datatype backend_call =
    Send_call ref Notification "ref option"
  | Clear_call ref
  | Clear_all_call

text \<open>\<^verbatim>\<open>collections.deque\<close> with \<^verbatim>\<open>maxlen\<close>: a list, oldest first. An append
  to a full deque drops an item from the other end.\<close>

definition deque_append :: "int option \<Rightarrow> 'a list \<Rightarrow> 'a \<Rightarrow> 'a list" where
  "deque_append maxlen d x =
     (let d' = d @ [x] in
      case maxlen of
        None \<Rightarrow> d'
      | Some m \<Rightarrow> if m < int (length d') then tl d' else d')"

definition deque_appendleft :: "int option \<Rightarrow> 'a list \<Rightarrow> 'a \<Rightarrow> 'a list" where
  "deque_appendleft maxlen d x =
     (let d' = x # d in
      case maxlen of
        None \<Rightarrow> d'
      | Some m \<Rightarrow> if m < int (length d') then butlast d' else d')"

definition deque_popleft :: "'a list \<Rightarrow> exception + 'a \<times> 'a list" where
  "deque_popleft d = (case d of [] \<Rightarrow> Inl IndexError | x # rest \<Rightarrow> Inr (x, rest))"

definition deque_remove :: "'a list \<Rightarrow> 'a \<Rightarrow> exception + 'a list" where
  "deque_remove d x = (if x \<in> set d then Inr (remove1 x d) else Inl ValueError)"

definition dict_pop :: "('k \<rightharpoonup> 'v) \<Rightarrow> 'k \<Rightarrow> exception + ('k \<rightharpoonup> 'v)" where
  "dict_pop m k = (case m k of None \<Rightarrow> Inl KeyError | Some v \<Rightarrow> Inr (m(k := None)))"

section \<open>The notifier\<close>

record DesktopNotifierBase =
  app_name :: string
  app_icon :: "string option"
  notification_limit :: "int option"
  current_notifications :: "ref list"
  notification_for_nid :: "ident \<rightharpoonup> ref"

text \<open>The notifier together with what it acts on: the store of notification objects,
  the record of the backend calls made so far, and the messages given to
  \<^verbatim>\<open>logger.warning\<close>.\<close>

record world = DesktopNotifierBase +
  heap :: "ref \<Rightarrow> Notification"
  calls :: "backend_call list"
  warnings :: "string list"

text \<open>\<^verbatim>\<open>DesktopNotifierBase.__init__\<close>. \<^verbatim>\<open>deque([], notification_limit)\<close> raises
  \<^verbatim>\<open>ValueError\<close> for a negative limit.\<close>

definition fresh_notifier ::
  "string \<Rightarrow> string option \<Rightarrow> int option \<Rightarrow> (ref \<Rightarrow> Notification) \<Rightarrow> world" where
  "fresh_notifier app_name_arg app_icon_arg limit h =
     \<lparr> app_name = app_name_arg,
       app_icon = app_icon_arg,
       notification_limit = limit,
       current_notifications = [],
       notification_for_nid = Map.empty,
       heap = h,
       calls = [],
       warnings = [] \<rparr>"

definition init ::
  "string \<Rightarrow> string option \<Rightarrow> int option \<Rightarrow> (ref \<Rightarrow> Notification) \<Rightarrow> exception + world" where
  "init app_name_arg app_icon_arg limit h =
     (if (case limit of None \<Rightarrow> False | Some m \<Rightarrow> m < 0) then Inl ValueError
      else Inr (fresh_notifier app_name_arg app_icon_arg limit h))"

text \<open>\<^verbatim>\<open>send\<close>, lines 150--173. The result is the exception that reaches the caller,
  if any, and the state left behind. The pop of the oldest notification stands before
  the \<^verbatim>\<open>try\<close>, and the handler is \<^verbatim>\<open>except Exception\<close>: an exception of the
  backend outside \<^verbatim>\<open>Exception\<close> leaves \<open>send\<close> with the oldest notification
  popped and nothing logged.\<close>

definition send :: "ref \<Rightarrow> ident outcome \<Rightarrow> world \<Rightarrow> exception option \<times> world" where
  "send r out w =
     (let w1 = (if \<not> truthy_icon (icon (heap w r))
                then w\<lparr>heap := (heap w)(r := (heap w r)\<lparr>icon := app_icon w\<rparr>)\<rparr>
                else w)
      in
      case (if Some (int (length (current_notifications w1))) = notification_limit w1
            then (case deque_popleft (current_notifications w1) of
                    Inl e \<Rightarrow> Inl e
                  | Inr (oldest, rest) \<Rightarrow> Inr (Some oldest, w1\<lparr>current_notifications := rest\<rparr>))
            else Inr (None, w1)) of
        Inl e \<Rightarrow> (Some e, w1)
      | Inr (notification_to_replace, w2) \<Rightarrow>
          (let w3 = w2\<lparr>calls := calls w2 @ [Send_call r (heap w2 r) notification_to_replace]\<rparr>
           in
           case out of
             Raises \<Rightarrow>
               (None,
                (case notification_to_replace of
                   Some oldest \<Rightarrow>
                     w3\<lparr>current_notifications :=
                          deque_appendleft (notification_limit w3) (current_notifications w3) oldest\<rparr>
                 | None \<Rightarrow> w3)
                \<lparr>warnings := warnings w3 @ [''Notification failed'']\<rparr>)
           | Raises_BaseException \<Rightarrow> (Some BackendBaseException, w3)
           | Returns platform_nid \<Rightarrow>
               (None,
                w3\<lparr>heap := (heap w3)(r := (heap w3 r)\<lparr>identifier := Some platform_nid\<rparr>),
                   current_notifications :=
                     deque_append (notification_limit w3) (current_notifications w3) r,
                   notification_for_nid := (notification_for_nid w3)(platform_nid \<mapsto> r)\<rparr>)))"

text \<open>\<^verbatim>\<open>_clear_notification_from_cache\<close>, lines 180--189: both lookups tolerate a
  miss.\<close>

definition clear_notification_from_cache :: "ref \<Rightarrow> world \<Rightarrow> world" where
  "clear_notification_from_cache r w =
     (let w1 = (case deque_remove (current_notifications w) r of
                  Inr d \<Rightarrow> w\<lparr>current_notifications := d\<rparr>
                | Inl e \<Rightarrow> w)
      in
      if truthy_identifier (identifier (heap w1 r)) then
        (case identifier (heap w1 r) of
           None \<Rightarrow> w1
         | Some nid \<Rightarrow>
             (case dict_pop (notification_for_nid w1) nid of
                Inr m \<Rightarrow> w1\<lparr>notification_for_nid := m\<rparr>
              | Inl e \<Rightarrow> w1))
      else w1)"

text \<open>\<^verbatim>\<open>clear\<close>, lines 228--231. An exception of \<^verbatim>\<open>_clear\<close> is not caught.\<close>

definition clear :: "ref \<Rightarrow> unit outcome \<Rightarrow> world \<Rightarrow> exception option \<times> world" where
  "clear r out w =
     (if truthy_identifier (identifier (heap w r)) then
        (let w1 = w\<lparr>calls := calls w @ [Clear_call r]\<rparr> in
         case out of
           Raises \<Rightarrow> (Some BackendError, w1)
         | Raises_BaseException \<Rightarrow> (Some BackendBaseException, w1)
         | Returns u \<Rightarrow> (None, clear_notification_from_cache r w1))
      else (None, clear_notification_from_cache r w))"

text \<open>\<^verbatim>\<open>clear_all\<close>, lines 250--252. An exception of \<^verbatim>\<open>_clear_all\<close> is not
  caught.\<close>

definition clear_all :: "unit outcome \<Rightarrow> world \<Rightarrow> exception option \<times> world" where
  "clear_all out w =
     (let w1 = w\<lparr>calls := calls w @ [Clear_all_call]\<rparr> in
      case out of
        Raises \<Rightarrow> (Some BackendError, w1)
      | Raises_BaseException \<Rightarrow> (Some BackendBaseException, w1)
      | Returns u \<Rightarrow> (None, w1\<lparr>current_notifications := [], notification_for_nid := Map.empty\<rparr>))"

section \<open>Sequences of operations\<close>

text \<open>What an application and a backend do with a notifier: the three public
  operations, each with the outcome of its backend call, and the cache removal that a
  backend calls when a notification was closed.\<close>

datatype operation =
    Send ref "ident outcome"
  | Clear ref "unit outcome"
  | Clear_all "unit outcome"
  | Cache_removal ref

text \<open>A store of notifications as the constructor leaves them.\<close>

definition blank :: "ref \<Rightarrow> Notification" where
  "blank = (\<lambda>r. Notification_plain ''title'' ''message'' None)"

fun step :: "operation \<Rightarrow> world \<Rightarrow> exception option \<times> world" where
  "step (Send r out) w = send r out w"
| "step (Clear r out) w = clear r out w"
| "step (Clear_all out) w = clear_all out w"
| "step (Cache_removal r) w = (None, clear_notification_from_cache r w)"

text \<open>The operations are run one after the other; an exception ends the operation
  that raised it and the caller goes on.\<close>

fun run :: "operation list \<Rightarrow> world \<Rightarrow> world" where
  "run [] w = w"
| "run (op # ops) w = run ops (snd (step op w))"

text \<open>The notifications a sequence of operations delivers: those of the sends whose
  backend call returned an identifier.\<close>

fun sent_successfully :: "operation list \<Rightarrow> world \<Rightarrow> ref list" where
  "sent_successfully [] w = []"
| "sent_successfully (op # ops) w =
     (case op of
        Send r (Returns i) \<Rightarrow> if fst (step op w) = None then [r] else []
      | _ \<Rightarrow> [])
     @ sent_successfully ops (snd (step op w))"

text \<open>A send whose backend call returns or raises an \<^verbatim>\<open>Exception\<close>: the send
  returns to its caller.\<close>

fun is_settled_Send :: "operation \<Rightarrow> bool" where
  "is_settled_Send (Send r Raises_BaseException) = False"
| "is_settled_Send (Send r out) = True"
| "is_settled_Send op = False"

fun is_Send_call :: "backend_call \<Rightarrow> bool" where
  "is_Send_call (Send_call r n rep) = True"
| "is_Send_call c = False"


text \<open>The last \<open>n\<close> items of a list.\<close>

definition newest :: "nat \<Rightarrow> 'a list \<Rightarrow> 'a list" where
  "newest n xs = drop (length xs - n) xs"




section \<open>What each operation does to the registry\<close>

lemma send_blocked:
  assumes "notification_limit w = Some 0" and "current_notifications w = []"
  shows "fst (send r out w) = Some IndexError"
    and "current_notifications (snd (send r out w)) = []"
    and "notification_for_nid (snd (send r out w)) = notification_for_nid w"
    and "notification_limit (snd (send r out w)) = Some 0"
    and "calls (snd (send r out w)) = calls w"
    and "identifier (heap (snd (send r out w)) r') = identifier (heap w r')"
  using assms by (simp_all add: send_def Let_def deque_popleft_def)

lemma send_Returns:
  assumes "\<not> (notification_limit w = Some 0 \<and> current_notifications w = [])"
  shows "fst (send r (Returns i) w) = None"
    and "current_notifications (snd (send r (Returns i) w)) =
           deque_append (notification_limit w)
             (if Some (int (length (current_notifications w))) = notification_limit w
              then tl (current_notifications w) else current_notifications w) r"
    and "notification_for_nid (snd (send r (Returns i) w)) = (notification_for_nid w)(i \<mapsto> r)"
    and "notification_limit (snd (send r (Returns i) w)) = notification_limit w"
    and "identifier (heap (snd (send r (Returns i) w)) r') =
           (if r' = r then Some i else identifier (heap w r'))"
  using assms
  by (auto simp: send_def Let_def deque_popleft_def split: list.splits)

lemma send_Raises:
  shows "current_notifications (snd (send r Raises w)) = current_notifications w"
    and "notification_for_nid (snd (send r Raises w)) = notification_for_nid w"
    and "notification_limit (snd (send r Raises w)) = notification_limit w"
    and "identifier (heap (snd (send r Raises w)) r') = identifier (heap w r')"
  by (auto simp: send_def Let_def deque_popleft_def deque_appendleft_def
           split: list.splits option.splits)

lemma send_Raises_BaseException:
  shows "current_notifications (snd (send r Raises_BaseException w)) =
           (if Some (int (length (current_notifications w))) = notification_limit w
            then tl (current_notifications w) else current_notifications w)"
    and "notification_for_nid (snd (send r Raises_BaseException w)) = notification_for_nid w"
    and "notification_limit (snd (send r Raises_BaseException w)) = notification_limit w"
    and "identifier (heap (snd (send r Raises_BaseException w)) r') = identifier (heap w r')"
  by (auto simp: send_def Let_def deque_popleft_def split: list.splits option.splits)

lemma send_Raises_BaseException_result:
  assumes "\<not> (notification_limit w = Some 0 \<and> current_notifications w = [])"
  shows "fst (send r Raises_BaseException w) = Some BackendBaseException"
    and "warnings (snd (send r Raises_BaseException w)) = warnings w"
  using assms
  by (auto simp: send_def Let_def deque_popleft_def split: list.splits option.splits)

lemma cache_removal:
  shows "current_notifications (clear_notification_from_cache r w) =
           remove1 r (current_notifications w)"
    and "notification_for_nid (clear_notification_from_cache r w) =
           (case identifier (heap w r) of
              None \<Rightarrow> notification_for_nid w
            | Some nid \<Rightarrow> if truthy_identifier (Some nid)
                          then (notification_for_nid w)(nid := None)
                          else notification_for_nid w)"
    and "notification_limit (clear_notification_from_cache r w) = notification_limit w"
    and "heap (clear_notification_from_cache r w) = heap w"
    and "calls (clear_notification_from_cache r w) = calls w"
  by (auto simp: clear_notification_from_cache_def Let_def deque_remove_def dict_pop_def
        remove1_idem split: option.splits)

lemma clear_fields:
  shows "heap (snd (clear r out w)) = heap w"
    and "notification_limit (snd (clear r out w)) = notification_limit w"
    and "(current_notifications (snd (clear r out w)) = current_notifications w
          \<and> notification_for_nid (snd (clear r out w)) = notification_for_nid w)
         \<or> (current_notifications (snd (clear r out w)) =
               current_notifications (clear_notification_from_cache r w)
          \<and> notification_for_nid (snd (clear r out w)) =
               notification_for_nid (clear_notification_from_cache r w))"
  by (cases out; simp add: clear_def Let_def cache_removal
        clear_notification_from_cache_def deque_remove_def dict_pop_def split: option.splits)+

lemma clear_all_fields:
  shows "heap (snd (clear_all out w)) = heap w"
    and "notification_limit (snd (clear_all out w)) = notification_limit w"
    and "(current_notifications (snd (clear_all out w)) = current_notifications w
          \<and> notification_for_nid (snd (clear_all out w)) = notification_for_nid w)
         \<or> (current_notifications (snd (clear_all out w)) = []
          \<and> notification_for_nid (snd (clear_all out w)) = Map.empty)"
  by (cases out; simp add: clear_all_def Let_def)+

section \<open>A notifier with limit zero\<close>

lemma no_send_calls_clear:
  "filter is_Send_call (calls (snd (clear r out w))) = filter is_Send_call (calls w)"
  by (cases out) (simp_all add: clear_def Let_def cache_removal)

lemma no_send_calls_clear_all:
  "filter is_Send_call (calls (snd (clear_all out w))) = filter is_Send_call (calls w)"
  by (cases out) (simp_all add: clear_all_def Let_def)

lemma step_limit: "notification_limit (snd (step op w)) = notification_limit w"
proof (cases op)
  case (Send r out)
  then show ?thesis
    by (cases out; cases "notification_limit w = Some 0 \<and> current_notifications w = []")
       (simp_all add: send_Returns send_Raises send_Raises_BaseException send_blocked)
qed (simp_all add: clear_fields clear_all_fields cache_removal)

lemma zero_limit_step:
  assumes "notification_limit w = Some 0" and "current_notifications w = []"
    and "filter is_Send_call (calls w) = []"
  shows "current_notifications (snd (step op w)) = []
       \<and> filter is_Send_call (calls (snd (step op w))) = []"
proof (cases op)
  case (Send r out)
  then show ?thesis using assms by (simp add: send_blocked)
next
  case (Clear r out)
  then show ?thesis using assms clear_fields(3) [of r out w]
    by (auto simp: no_send_calls_clear cache_removal)
next
  case (Clear_all out)
  then show ?thesis using assms clear_all_fields(3) [of out w]
    by (auto simp: no_send_calls_clear_all)
next
  case (Cache_removal r)
  then show ?thesis using assms by (simp add: cache_removal)
qed

lemma zero_limit_run:
  assumes "notification_limit w = Some 0" and "current_notifications w = []"
    and "filter is_Send_call (calls w) = []"
  shows "current_notifications (run ops w) = []
       \<and> filter is_Send_call (calls (run ops w)) = []
       \<and> notification_limit (run ops w) = Some 0"
  using assms
proof (induction ops arbitrary: w)
  case Nil
  then show ?case by simp
next
  case (Cons op ops)
  from zero_limit_step [OF Cons.prems, of op] step_limit [of op w] Cons.prems(1)
  show ?case by (simp add: Cons.IH)
qed

section \<open>Registered notifications carry an identifier\<close>

lemma set_deque_append: "set (deque_append m d x) \<subseteq> insert x (set d)"
  by (cases d) (auto simp: deque_append_def Let_def split: option.splits)

lemma set_tl_subset: "set (tl d) \<subseteq> set d"
  by (cases d) auto

lemma send_Returns_set:
  assumes "\<not> (notification_limit w = Some 0 \<and> current_notifications w = [])"
  shows "set (current_notifications (snd (send r (Returns i) w)))
           \<subseteq> insert r (set (current_notifications w))"
proof -
  let ?d = "if Some (int (length (current_notifications w))) = notification_limit w
            then tl (current_notifications w) else current_notifications w"
  have "set (current_notifications (snd (send r (Returns i) w))) \<subseteq> insert r (set ?d)"
    unfolding send_Returns(2) [OF assms] by (rule set_deque_append)
  moreover have "set ?d \<subseteq> set (current_notifications w)"
    using set_tl_subset [of "current_notifications w"] by simp
  ultimately show ?thesis by blast
qed

lemma ids_assigned_step:
  assumes "\<forall>r \<in> set (current_notifications w). identifier (heap w r) \<noteq> None"
  shows "\<forall>r \<in> set (current_notifications (snd (step op w))).
            identifier (heap (snd (step op w)) r) \<noteq> None"
proof (cases op)
  case (Send r out)
  show ?thesis
  proof (cases "notification_limit w = Some 0 \<and> current_notifications w = []")
    case True
    then show ?thesis using Send by (simp add: send_blocked)
  next
    case False
    show ?thesis
    proof (cases out)
      case (Returns i)
      have "set (current_notifications (snd (send r (Returns i) w)))
              \<subseteq> insert r (set (current_notifications w))"
        by (rule send_Returns_set [OF False])
      then show ?thesis using Send Returns assms
        by (auto simp: send_Returns(5) [OF False])
    next
      case Raises
      then show ?thesis using Send assms by (simp add: send_Raises)
    next
      case Raises_BaseException
      then show ?thesis
        using Send assms set_tl_subset [of "current_notifications w"]
        by (auto simp: send_Raises_BaseException)
    qed
  qed
next
  case (Clear r out)
  then show ?thesis using assms clear_fields(3) [of r out w]
    by (auto simp: clear_fields(1) cache_removal dest: notin_set_remove1)
next
  case (Clear_all out)
  then show ?thesis using assms clear_all_fields(3) [of out w]
    by (auto simp: clear_all_fields(1))
next
  case (Cache_removal r)
  then show ?thesis using assms by (auto simp: cache_removal dest: notin_set_remove1)
qed

lemma ids_assigned_run:
  assumes "\<forall>r \<in> set (current_notifications w). identifier (heap w r) \<noteq> None"
  shows "\<forall>r \<in> set (current_notifications (run ops w)). identifier (heap (run ops w) r) \<noteq> None"
  using assms
proof (induction ops arbitrary: w)
  case Nil
  then show ?case by simp
next
  case (Cons op ops)
  show ?case using Cons.IH [OF ids_assigned_step [OF Cons.prems, of op]] by simp
qed

section \<open>The limit bounds the registry\<close>

lemma length_deque_append:
  assumes "int (length d) \<le> N"
  shows "int (length (deque_append (Some N) d x)) \<le> N"
  using assms by (auto simp: deque_append_def Let_def)

lemma bounded_step:
  assumes "notification_limit w = Some N" and "int (length (current_notifications w)) \<le> N"
  shows "int (length (current_notifications (snd (step op w)))) \<le> N"
proof (cases op)
  case (Send r out)
  show ?thesis
  proof (cases "notification_limit w = Some 0 \<and> current_notifications w = []")
    case True
    then show ?thesis using Send assms by (simp add: send_blocked)
  next
    case False
    show ?thesis
    proof (cases out)
      case (Returns i)
      have "int (length (if Some (int (length (current_notifications w))) = notification_limit w
              then tl (current_notifications w) else current_notifications w)) \<le> N"
        using assms by auto
      then show ?thesis using Send Returns assms(1)
        by (simp only: step.simps send_Returns(2) [OF False] length_deque_append)
    next
      case Raises
      then show ?thesis using Send assms by (simp add: send_Raises)
    next
      case Raises_BaseException
      have "int (length (tl (current_notifications w))) \<le> int (length (current_notifications w))"
        by simp
      then show ?thesis using Raises_BaseException Send assms
        by (auto simp: send_Raises_BaseException simp del: length_tl)
    qed
  qed
next
  case (Clear r out)
  then show ?thesis using assms clear_fields(3) [of r out w]
    by (auto simp: cache_removal length_remove1)
next
  case (Clear_all out)
  then show ?thesis using assms clear_all_fields(3) [of out w] by auto
next
  case (Cache_removal r)
  then show ?thesis using assms by (auto simp: cache_removal length_remove1)
qed

lemma bounded_run:
  assumes "notification_limit w = Some N" and "int (length (current_notifications w)) \<le> N"
  shows "int (length (current_notifications (run ops w))) \<le> N"
  using assms
proof (induction ops arbitrary: w)
  case Nil
  then show ?case by simp
next
  case (Cons op ops)
  have "notification_limit (snd (step op w)) = Some N"
    using Cons.prems(1) by (simp add: step_limit)
  from Cons.IH [OF this bounded_step [OF Cons.prems]] show ?case by simp
qed

lemma newest_append: "newest n (newest n xs @ ys) = newest n (xs @ ys)"
  by (cases "length xs \<le> n") (auto simp: newest_def ac_simps)

lemma send_Returns_newest:
  assumes "notification_limit w = Some N" and "int (length (current_notifications w)) \<le> N"
    and "\<not> (notification_limit w = Some 0 \<and> current_notifications w = [])"
  shows "current_notifications (snd (send r (Returns i) w))
           = newest (nat N) (current_notifications w @ [r])"
proof (cases "current_notifications w")
  case Nil
  then show ?thesis using assms
    by (auto simp: send_Returns(2) [OF assms(3)] deque_append_def Let_def newest_def)
next
  case (Cons a d)
  then show ?thesis using assms
    by (auto simp: send_Returns(2) [OF assms(3)] deque_append_def Let_def newest_def nat_add_distrib)
qed

lemma fifo_run:
  assumes "notification_limit w = Some N" and "int (length (current_notifications w)) \<le> N"
    and "list_all is_settled_Send ops"
  shows "current_notifications (run ops w)
           = newest (nat N) (current_notifications w @ sent_successfully ops w)"
  using assms
proof (induction ops arbitrary: w)
  case Nil
  then show ?case by (simp add: newest_def)
next
  case (Cons op ops)
  let ?w' = "snd (step op w)"
  have lim: "notification_limit ?w' = Some N" using Cons.prems(1) by (simp add: step_limit)
  have len: "int (length (current_notifications ?w')) \<le> N"
    by (rule bounded_step [OF Cons.prems(1,2)])
  have rest: "list_all is_settled_Send ops" using Cons.prems(3) by simp
  have IH: "current_notifications (run ops ?w')
           = newest (nat N) (current_notifications ?w' @ sent_successfully ops ?w')"
    by (rule Cons.IH [OF lim len rest])
  from Cons.prems(3) obtain r out where op: "op = Send r out"
    and caught: "out \<noteq> Raises_BaseException"
    by (cases op rule: is_settled_Send.cases) auto
  show ?case
  proof (cases "notification_limit w = Some 0 \<and> current_notifications w = []")
    case True
    then show ?thesis using IH op by (cases out) (simp_all add: send_blocked)
  next
    case False
    show ?thesis
    proof (cases out)
      case (Returns i)
      then show ?thesis using IH op
        by (simp add: send_Returns(1) [OF False]
              send_Returns_newest [OF Cons.prems(1,2) False] newest_append)
    next
      case Raises
      then show ?thesis using IH op by (simp add: send_Raises)
    next
      case Raises_BaseException
      then show ?thesis using caught by simp
    qed
  qed
qed

section \<open>Clearing\<close>

lemma count_le1_remove1: "count_list xs x \<le> 1 \<Longrightarrow> x \<notin> set (remove1 x xs)"
proof (induction xs)
  case Nil
  then show ?case by simp
next
  case (Cons y xs)
  then show ?case by (cases "y = x") (auto simp: count_list_0_iff)
qed

lemma clear_Returns:
  shows "fst (clear r (Returns u) w) = None"
    and "current_notifications (snd (clear r (Returns u) w)) = remove1 r (current_notifications w)"
    and "notification_for_nid (snd (clear r (Returns u) w)) =
           (case identifier (heap w r) of
              None \<Rightarrow> notification_for_nid w
            | Some nid \<Rightarrow> if truthy_identifier (Some nid)
                          then (notification_for_nid w)(nid := None)
                          else notification_for_nid w)"
  by (auto simp: clear_def Let_def cache_removal split: option.splits)

section \<open>Consistency of the registry\<close>




















section \<open>The claims\<close>

text \<open>The definitions that a run on concrete input unfolds.\<close>

lemmas run_defs =
  send_def clear_def clear_all_def clear_notification_from_cache_def Let_def
  deque_popleft_def deque_appendleft_def deque_append_def deque_remove_def dict_pop_def
  fresh_notifier_def init_def blank_def Notification_plain_def Notification_init_def




text \<open>
  C2: whenever the backend's send raises, \<open>current_notifications\<close> is after the call
  what it was before it, in contents and order. The handler that puts an evicted entry
  back is \<^verbatim>\<open>except Exception\<close>, and the pop stands before the \<^verbatim>\<open>try\<close>: when, at
  capacity, the backend raises outside \<^verbatim>\<open>Exception\<close> (a cancelled call raises
  \<^verbatim>\<open>asyncio.CancelledError\<close>), the oldest entry stays removed. With limit 1, after one
  notification is sent and the next send's backend call raises so, the registry is
  empty.
\<close>

theorem uncaught_send_failure_loses_oldest:
  "current_notifications
     (run [Send 0 (Returns (IntId 1))] (fresh_notifier ''Python'' None (Some 1) blank)) = [0]
   \<and> fst (send 1 Raises_BaseException
       (run [Send 0 (Returns (IntId 1))] (fresh_notifier ''Python'' None (Some 1) blank)))
     = Some BackendBaseException
   \<and> current_notifications (snd (send 1 Raises_BaseException
       (run [Send 0 (Returns (IntId 1))] (fresh_notifier ''Python'' None (Some 1) blank)))) = []"
  by (simp add: run_defs)

text \<open>
  C2, as the code has it: when the backend's send raises an \<^verbatim>\<open>Exception\<close>,
  \<open>current_notifications\<close> is after the call what it was before it, in contents and
  order (an evicted oldest entry is put back at the front), and so is the index; with
  limit 2, after A and B are sent (identifiers 1 and 2) and the send of C fails so, the
  sequence is A, B and the index maps 1 to A and 2 to B. When the backend raises outside
  \<^verbatim>\<open>Exception\<close>, the index is unchanged and \<open>current_notifications\<close> is its former
  value without the oldest entry if the registry was at capacity, and its former value
  otherwise.
\<close>

theorem send_failure_keeps_registry:
  "current_notifications (snd (send r Raises w)) = current_notifications w
   \<and> notification_for_nid (snd (send r Raises w)) = notification_for_nid w
   \<and> current_notifications
       (run [Send 0 (Returns (IntId 1)), Send 1 (Returns (IntId 2)), Send 2 Raises]
          (fresh_notifier ''Python'' None (Some 2) blank)) = [0, 1]
   \<and> notification_for_nid
       (run [Send 0 (Returns (IntId 1)), Send 1 (Returns (IntId 2)), Send 2 Raises]
          (fresh_notifier ''Python'' None (Some 2) blank)) = [IntId 1 \<mapsto> 0, IntId 2 \<mapsto> 1]
   \<and> current_notifications (snd (send r Raises_BaseException w))
       = (if Some (int (length (current_notifications w))) = notification_limit w
          then tl (current_notifications w) else current_notifications w)
   \<and> notification_for_nid (snd (send r Raises_BaseException w)) = notification_for_nid w"
proof -
  have "current_notifications (snd (send r Raises w)) = current_notifications w"
    by (rule send_Raises(1))
  moreover have "notification_for_nid (snd (send r Raises w)) = notification_for_nid w"
    by (rule send_Raises(2))
  moreover have "current_notifications
       (run [Send 0 (Returns (IntId 1)), Send 1 (Returns (IntId 2)), Send 2 Raises]
          (fresh_notifier ''Python'' None (Some 2) blank)) = [0, 1]"
    by (simp add: run_defs)
  moreover have "notification_for_nid
       (run [Send 0 (Returns (IntId 1)), Send 1 (Returns (IntId 2)), Send 2 Raises]
          (fresh_notifier ''Python'' None (Some 2) blank)) = [IntId 1 \<mapsto> 0, IntId 2 \<mapsto> 1]"
    by (simp add: run_defs)
  moreover have "current_notifications (snd (send r Raises_BaseException w))
       = (if Some (int (length (current_notifications w))) = notification_limit w
          then tl (current_notifications w) else current_notifications w)"
    by (rule send_Raises_BaseException(1))
  moreover have "notification_for_nid (snd (send r Raises_BaseException w))
       = notification_for_nid w"
    by (rule send_Raises_BaseException(2))
  ultimately show ?thesis by blast
qed

text \<open>
  C3: with limit N the registry never holds more than N notifications, and after a
  sequence of sends it holds the last N delivered notifications, oldest first; with
  limit 2 and A, B, C sent with identifiers 1, 2, 3 the registry is B, C, the index is
  2 to B and 3 to C, and A has no entry in either structure. Two parts fail. A keeps
  its entry under identifier 1. And a send at capacity whose backend call raises
  outside \<^verbatim>\<open>Exception\<close> loses the oldest notification: with limit 1, after one
  delivered notification and such a send, the registry is empty although one
  notification was delivered.
\<close>

theorem evicted_notification_still_indexed:
  "current_notifications
     (run [Send 0 (Returns (IntId 1)), Send 1 (Returns (IntId 2)), Send 2 (Returns (IntId 3))]
        (fresh_notifier ''Python'' None (Some 2) blank)) = [1, 2]
   \<and> notification_for_nid
     (run [Send 0 (Returns (IntId 1)), Send 1 (Returns (IntId 2)), Send 2 (Returns (IntId 3))]
        (fresh_notifier ''Python'' None (Some 2) blank)) (IntId 1) = Some 0
   \<and> sent_successfully [Send 0 (Returns (IntId 1)), Send 1 Raises_BaseException]
        (fresh_notifier ''Python'' None (Some 1) blank) = [0]
   \<and> current_notifications
     (run [Send 0 (Returns (IntId 1)), Send 1 Raises_BaseException]
        (fresh_notifier ''Python'' None (Some 1) blank)) = []"
  by (simp add: run_defs)

text \<open>
  C3, as the code has it: for a notifier constructed with limit N, after any sequence
  of operations \<open>current_notifications\<close> holds at most N notifications, and after a
  sequence of sends whose backend calls return or raise an \<^verbatim>\<open>Exception\<close> it holds
  the last N successfully sent notifications, oldest first. With limit 2 and A, B, C
  sent with identifiers 1, 2, 3 the registry is B, C and the index maps 1 to A, 2 to B
  and 3 to C: eviction removes A from \<open>current_notifications\<close> only.
\<close>

theorem notification_limit_fifo:
  assumes "init name ic (Some N) h = Inr w0"
  shows "int (length (current_notifications (run ops w0))) \<le> N
     \<and> (list_all is_settled_Send ops \<longrightarrow>
          current_notifications (run ops w0)
            = drop (length (sent_successfully ops w0) - nat N) (sent_successfully ops w0))
     \<and> current_notifications
         (run [Send 0 (Returns (IntId 1)), Send 1 (Returns (IntId 2)), Send 2 (Returns (IntId 3))]
            (fresh_notifier ''Python'' None (Some 2) blank)) = [1, 2]
     \<and> notification_for_nid
         (run [Send 0 (Returns (IntId 1)), Send 1 (Returns (IntId 2)), Send 2 (Returns (IntId 3))]
            (fresh_notifier ''Python'' None (Some 2) blank))
         = [IntId 1 \<mapsto> 0, IntId 2 \<mapsto> 1, IntId 3 \<mapsto> 2]"
proof -
  have w0: "w0 = fresh_notifier name ic (Some N) h" and N: "0 \<le> N"
    using assms by (simp_all add: init_def split: if_splits)
  have lim: "notification_limit w0 = Some N"
    and len: "int (length (current_notifications w0)) \<le> N"
    using w0 N by (simp_all add: fresh_notifier_def)
  have e: "current_notifications w0 = []" using w0 by (simp add: fresh_notifier_def)
  have general: "int (length (current_notifications (run ops w0))) \<le> N
     \<and> (list_all is_settled_Send ops \<longrightarrow>
          current_notifications (run ops w0)
            = drop (length (sent_successfully ops w0) - nat N) (sent_successfully ops w0))"
    using bounded_run [OF lim len, of ops] fifo_run [OF lim len, of ops]
    by (simp add: newest_def e)
  have s1: "current_notifications
         (run [Send 0 (Returns (IntId 1)), Send 1 (Returns (IntId 2)), Send 2 (Returns (IntId 3))]
            (fresh_notifier ''Python'' None (Some 2) blank)) = [1, 2]"
    by (simp add: run_defs)
  have s2: "notification_for_nid
         (run [Send 0 (Returns (IntId 1)), Send 1 (Returns (IntId 2)), Send 2 (Returns (IntId 3))]
            (fresh_notifier ''Python'' None (Some 2) blank))
         = [IntId 1 \<mapsto> 0, IntId 2 \<mapsto> 1, IntId 3 \<mapsto> 2]"
    by (simp add: run_defs)
  show ?thesis using general s1 s2 by blast
qed

theorem notification_limit_fifo_witness:
  "init ''Python'' None (Some 2) blank = Inr (fresh_notifier ''Python'' None (Some 2) blank)
   \<and> list_all is_settled_Send
       [Send 0 (Returns (IntId 1)), Send 1 Raises, Send 1 (Returns (IntId 2)),
        Send 2 (Returns (IntId 3))]
   \<and> sent_successfully
       [Send 0 (Returns (IntId 1)), Send 1 Raises, Send 1 (Returns (IntId 2)),
        Send 2 (Returns (IntId 3))]
       (fresh_notifier ''Python'' None (Some 2) blank) = [0, 1, 2]
   \<and> current_notifications
       (run [Send 0 (Returns (IntId 1)), Send 1 Raises, Send 1 (Returns (IntId 2)),
             Send 2 (Returns (IntId 3))]
          (fresh_notifier ''Python'' None (Some 2) blank)) = [1, 2]"
proof -
  let ?ops = "[Send 0 (Returns (IntId 1)), Send 1 Raises, Send 1 (Returns (IntId 2)),
               Send 2 (Returns (IntId 3))]"
  let ?w0 = "fresh_notifier ''Python'' None (Some 2) blank"
  have h1: "init ''Python'' None (Some 2) blank = Inr ?w0" by (simp add: init_def)
  have h2: "list_all is_settled_Send ?ops" by simp
  have h3: "sent_successfully ?ops ?w0 = [0, 1, 2]" by (simp add: run_defs)
  from notification_limit_fifo [OF h1, of ?ops] h2
  have "current_notifications (run ?ops ?w0)
          = drop (length (sent_successfully ?ops ?w0) - nat 2) (sent_successfully ?ops ?w0)"
    by blast
  then have "current_notifications (run ?ops ?w0) = [1, 2]"
    unfolding h3 by simp
  then show ?thesis using h1 h2 h3 by blast
qed

text \<open>
  C4: whenever the backend's send fails, \<open>send\<close> returns to its caller without an
  exception and the failure is only logged. The handler is \<^verbatim>\<open>except Exception\<close>:
  an exception of the backend outside \<^verbatim>\<open>Exception\<close> (a cancelled call raises
  \<^verbatim>\<open>asyncio.CancelledError\<close>) reaches the caller of \<open>send\<close>, and nothing is logged.
\<close>

theorem uncaught_send_failure_reaches_caller:
  "length (calls (snd (send 0 Raises_BaseException
      (fresh_notifier ''Python'' None None blank)))) = 1
   \<and> fst (send 0 Raises_BaseException (fresh_notifier ''Python'' None None blank))
     = Some BackendBaseException
   \<and> warnings (snd (send 0 Raises_BaseException
      (fresh_notifier ''Python'' None None blank))) = []"
  by (simp add: run_defs)

text \<open>
  C4, as the code has it: when the backend's send was called and raised an
  \<^verbatim>\<open>Exception\<close>, \<open>send\<close> returns to its caller without an exception and the
  failure is logged as a warning; when it was called and raised outside
  \<^verbatim>\<open>Exception\<close>, the exception reaches the caller and no warning is logged.
\<close>

theorem send_failure_returns_normally:
  assumes "calls (snd (send r Raises w)) \<noteq> calls w"
  shows "fst (send r Raises w) = None
    \<and> warnings (snd (send r Raises w)) = warnings w @ [''Notification failed'']
    \<and> (calls (snd (send r Raises_BaseException w)) \<noteq> calls w \<longrightarrow>
         fst (send r Raises_BaseException w) = Some BackendBaseException
         \<and> warnings (snd (send r Raises_BaseException w)) = warnings w)"
  using assms
  by (auto simp: send_def Let_def deque_popleft_def split: list.splits option.splits if_splits)

theorem send_failure_returns_normally_witness:
  "calls (snd (send 0 Raises (fresh_notifier ''Python'' None None blank)))
     \<noteq> calls (fresh_notifier ''Python'' None None blank)
   \<and> calls (snd (send 0 Raises_BaseException (fresh_notifier ''Python'' None None blank)))
     \<noteq> calls (fresh_notifier ''Python'' None None blank)
   \<and> fst (send 0 Raises (fresh_notifier ''Python'' None None blank)) = None
   \<and> warnings (snd (send 0 Raises (fresh_notifier ''Python'' None None blank)))
       = [''Notification failed'']
   \<and> fst (send 0 Raises_BaseException (fresh_notifier ''Python'' None None blank))
       = Some BackendBaseException
   \<and> warnings (snd (send 0 Raises_BaseException (fresh_notifier ''Python'' None None blank)))
       = []"
proof -
  let ?w = "fresh_notifier ''Python'' None None blank"
  have h: "calls (snd (send 0 Raises ?w)) \<noteq> calls ?w"
    by (simp add: run_defs)
  have h': "calls (snd (send 0 Raises_BaseException ?w)) \<noteq> calls ?w"
    by (simp add: run_defs)
  have e: "warnings ?w = []"
    by (simp add: fresh_notifier_def)
  from send_failure_returns_normally [OF h] h'
  have "fst (send 0 Raises ?w) = None
    \<and> warnings (snd (send 0 Raises ?w)) = warnings ?w @ [''Notification failed'']
    \<and> fst (send 0 Raises_BaseException ?w) = Some BackendBaseException
    \<and> warnings (snd (send 0 Raises_BaseException ?w)) = warnings ?w"
    by blast
  then show ?thesis using h h' e by simp
qed

text \<open>
  C5: \<open>clear_all\<close> empties both registry structures whatever the backend's
  \<open>_clear_all\<close> does. The code awaits the backend first and has no handler around the
  call: when the backend raises, the exception leaves \<open>clear_all\<close> and the registry
  keeps its entries.
\<close>

theorem clear_all_backend_failure_keeps_registry:
  "fst (clear_all Raises
          (run [Send 0 (Returns (IntId 1))] (fresh_notifier ''Python'' None None blank)))
     = Some BackendError
   \<and> current_notifications (snd (clear_all Raises
          (run [Send 0 (Returns (IntId 1))] (fresh_notifier ''Python'' None None blank)))) = [0]
   \<and> notification_for_nid (snd (clear_all Raises
          (run [Send 0 (Returns (IntId 1))] (fresh_notifier ''Python'' None None blank))))
       (IntId 1) = Some 0"
  by (simp add: run_defs)

text \<open>
  C5, as the code has it: when the backend's \<open>_clear_all\<close> returns, \<open>clear_all\<close>
  returns normally and both registry structures are empty; when it raises, the
  exception reaches the caller and both structures are left as they were.
\<close>

theorem clear_all_registry:
  "fst (clear_all (Returns ()) w) = None
   \<and> current_notifications (snd (clear_all (Returns ()) w)) = []
   \<and> notification_for_nid (snd (clear_all (Returns ()) w)) = Map.empty
   \<and> fst (clear_all Raises w) = Some BackendError
   \<and> current_notifications (snd (clear_all Raises w)) = current_notifications w
   \<and> notification_for_nid (snd (clear_all Raises w)) = notification_for_nid w
   \<and> fst (clear_all Raises_BaseException w) = Some BackendBaseException
   \<and> current_notifications (snd (clear_all Raises_BaseException w)) = current_notifications w
   \<and> notification_for_nid (snd (clear_all Raises_BaseException w)) = notification_for_nid w"
  by (simp add: clear_all_def Let_def)

text \<open>
  C6: a second \<open>clear\<close> of the same notification leaves both registry structures
  unchanged, two \<open>clear_all\<close> in a row leave an empty registry each time, and removing
  a notification that one or both structures lack is a no-op without error. The first
  part fails for a notification that is registered twice: \<^verbatim>\<open>deque.remove\<close> takes
  out the first occurrence only, so after the same notification was sent twice the
  second \<open>clear\<close> removes the second occurrence.
\<close>

theorem second_clear_removes_second_occurrence:
  "current_notifications (snd (clear 0 (Returns ())
     (run [Send 0 (Returns (IntId 1)), Send 0 (Returns (IntId 2))]
        (fresh_notifier ''Python'' None None blank)))) = [0]
   \<and> current_notifications (snd (clear 0 (Returns ()) (snd (clear 0 (Returns ())
     (run [Send 0 (Returns (IntId 1)), Send 0 (Returns (IntId 2))]
        (fresh_notifier ''Python'' None None blank)))))) = []"
  by (simp add: run_defs)

text \<open>
  C6, as the code has it: for a notification that occurs at most once in
  \<open>current_notifications\<close>, after a \<open>clear\<close> whose backend call returned, a second
  \<open>clear\<close> (whatever its backend call does) leaves both registry structures unchanged;
  two \<open>clear_all\<close> in a row whose backend calls return leave an empty registry each
  time; the cache removal raises nothing, changes the sequence only when the
  notification is in it, changes the index only when the notification's identifier is
  truthy and a key of the index, and is idempotent.
\<close>

theorem clear_idempotent:
  assumes "count_list (current_notifications w) n \<le> 1"
  shows "fst (clear n (Returns ()) w) = None
     \<and> current_notifications (snd (clear n out (snd (clear n (Returns ()) w))))
         = current_notifications (snd (clear n (Returns ()) w))
     \<and> notification_for_nid (snd (clear n out (snd (clear n (Returns ()) w))))
         = notification_for_nid (snd (clear n (Returns ()) w))
     \<and> current_notifications (snd (clear_all (Returns ()) w)) = []
     \<and> notification_for_nid (snd (clear_all (Returns ()) w)) = Map.empty
     \<and> current_notifications (snd (clear_all (Returns ()) (snd (clear_all (Returns ()) w)))) = []
     \<and> notification_for_nid (snd (clear_all (Returns ()) (snd (clear_all (Returns ()) w))))
         = Map.empty
     \<and> current_notifications (clear_notification_from_cache n w)
         = (if n \<in> set (current_notifications w) then remove1 n (current_notifications w)
            else current_notifications w)
     \<and> notification_for_nid (clear_notification_from_cache n w)
         = (case identifier (heap w n) of
              None \<Rightarrow> notification_for_nid w
            | Some nid \<Rightarrow>
                if truthy_identifier (Some nid) \<and> notification_for_nid w nid \<noteq> None
                then (notification_for_nid w)(nid := None)
                else notification_for_nid w)
     \<and> clear_notification_from_cache n (clear_notification_from_cache n w)
         = clear_notification_from_cache n w"
proof -
  let ?w1 = "snd (clear n (Returns ()) w)"
  have gone: "n \<notin> set (remove1 n (current_notifications w))"
    by (rule count_le1_remove1 [OF assms])
  have h1: "heap ?w1 = heap w" by (rule clear_fields(1))
  have a: "current_notifications (clear_notification_from_cache n ?w1) = current_notifications ?w1"
    using gone by (simp add: cache_removal clear_Returns remove1_idem)
  have b: "notification_for_nid (clear_notification_from_cache n ?w1) = notification_for_nid ?w1"
    by (simp add: cache_removal clear_Returns h1 split: option.splits)
  have second: "current_notifications (snd (clear n out ?w1)) = current_notifications ?w1
     \<and> notification_for_nid (snd (clear n out ?w1)) = notification_for_nid ?w1"
    using clear_fields(3) [of n out ?w1] a b by auto
  have all: "current_notifications (snd (clear_all (Returns ()) w)) = []
     \<and> notification_for_nid (snd (clear_all (Returns ()) w)) = Map.empty" for w
    by (simp add: clear_all_def Let_def)
  have miss1: "current_notifications (clear_notification_from_cache n w)
         = (if n \<in> set (current_notifications w) then remove1 n (current_notifications w)
            else current_notifications w)"
    by (simp add: cache_removal remove1_idem)
  have miss2: "notification_for_nid (clear_notification_from_cache n w)
         = (case identifier (heap w n) of
              None \<Rightarrow> notification_for_nid w
            | Some nid \<Rightarrow>
                if truthy_identifier (Some nid) \<and> notification_for_nid w nid \<noteq> None
                then (notification_for_nid w)(nid := None)
                else notification_for_nid w)"
    by (auto simp: cache_removal split: option.splits)
  have idem: "clear_notification_from_cache n (clear_notification_from_cache n w)
         = clear_notification_from_cache n w"
    using gone
    by (auto simp: clear_notification_from_cache_def Let_def deque_remove_def dict_pop_def
          split: option.splits)
  show ?thesis using second all miss1 miss2 idem clear_Returns(1) [of n "()" w] by blast
qed

theorem clear_idempotent_witness:
  "count_list (current_notifications
      (run [Send 0 (Returns (IntId 1)), Send 1 (Returns (IntId 2))]
         (fresh_notifier ''Python'' None None blank))) 0 \<le> 1
   \<and> current_notifications (snd (clear 0 (Returns ())
      (run [Send 0 (Returns (IntId 1)), Send 1 (Returns (IntId 2))]
         (fresh_notifier ''Python'' None None blank)))) = [1]
   \<and> current_notifications (snd (clear 0 (Returns ()) (snd (clear 0 (Returns ())
      (run [Send 0 (Returns (IntId 1)), Send 1 (Returns (IntId 2))]
         (fresh_notifier ''Python'' None None blank)))))) = [1]
   \<and> notification_for_nid (snd (clear 0 (Returns ()) (snd (clear 0 (Returns ())
      (run [Send 0 (Returns (IntId 1)), Send 1 (Returns (IntId 2))]
         (fresh_notifier ''Python'' None None blank))))))
       = notification_for_nid (snd (clear 0 (Returns ())
      (run [Send 0 (Returns (IntId 1)), Send 1 (Returns (IntId 2))]
         (fresh_notifier ''Python'' None None blank))))"
proof -
  let ?w = "run [Send 0 (Returns (IntId 1)), Send 1 (Returns (IntId 2))]
              (fresh_notifier ''Python'' None None blank)"
  have h: "count_list (current_notifications ?w) 0 \<le> 1" by (simp add: run_defs)
  have c: "current_notifications (snd (clear 0 (Returns ()) ?w)) = [1]"
    by (simp add: run_defs)
  from clear_idempotent [OF h, of "Returns ()"]
  have "current_notifications (snd (clear 0 (Returns ()) (snd (clear 0 (Returns ()) ?w))))
          = current_notifications (snd (clear 0 (Returns ()) ?w))
     \<and> notification_for_nid (snd (clear 0 (Returns ()) (snd (clear 0 (Returns ()) ?w))))
          = notification_for_nid (snd (clear 0 (Returns ()) ?w))"
    by blast
  then show ?thesis using h c by simp
qed

text \<open>
  C7: for a notification without identifier (never sent), \<open>clear\<close> does not call the
  backend, leaves the registry as it is and raises nothing: at every state reached from
  a new notifier, \<open>clear\<close> of such a notification returns normally and the state,
  backend calls included, is unchanged.
\<close>

theorem clear_unsent_notification:
  assumes "init name ic limit h = Inr w0"
    and "identifier (heap (run ops w0) n) = None"
  shows "clear n out (run ops w0) = (None, run ops w0)"
proof -
  have "w0 = fresh_notifier name ic limit h"
    using assms(1) by (simp add: init_def split: if_splits)
  then have "\<forall>r \<in> set (current_notifications w0). identifier (heap w0 r) \<noteq> None"
    by (simp add: fresh_notifier_def)
  from ids_assigned_run [OF this, of ops] assms(2)
  have "n \<notin> set (current_notifications (run ops w0))" by auto
  then show ?thesis using assms(2)
    by (simp add: clear_def clear_notification_from_cache_def deque_remove_def)
qed

theorem clear_unsent_notification_witness:
  "init ''Python'' None (Some 2) blank = Inr (fresh_notifier ''Python'' None (Some 2) blank)
   \<and> identifier (heap (run [Send 0 (Returns (IntId 1)), Send 1 Raises]
        (fresh_notifier ''Python'' None (Some 2) blank)) 1) = None
   \<and> clear 1 Raises (run [Send 0 (Returns (IntId 1)), Send 1 Raises]
        (fresh_notifier ''Python'' None (Some 2) blank))
     = (None, run [Send 0 (Returns (IntId 1)), Send 1 Raises]
        (fresh_notifier ''Python'' None (Some 2) blank))"
proof -
  let ?w0 = "fresh_notifier ''Python'' None (Some 2) blank"
  let ?ops = "[Send 0 (Returns (IntId 1)), Send 1 Raises]"
  have h1: "init ''Python'' None (Some 2) blank = Inr ?w0" by (simp add: init_def)
  have h2: "identifier (heap (run ?ops ?w0) 1) = None" by (simp add: run_defs)
  show ?thesis using h1 h2 clear_unsent_notification [OF h1 h2, of Raises] by blast
qed



text \<open>
  C9: a notifier constructed with limit 0 raises \<^verbatim>\<open>IndexError\<close> from every \<open>send\<close>:
  the registry is always empty, its length equals the limit, and the pop from the empty
  deque fails before the backend is called. No send ever reaches the backend.
\<close>

theorem send_with_limit_zero:
  "init name ic (Some 0) h = Inr (fresh_notifier name ic (Some 0) h)
   \<and> current_notifications (run ops (fresh_notifier name ic (Some 0) h)) = []
   \<and> fst (send r out (run ops (fresh_notifier name ic (Some 0) h))) = Some IndexError
   \<and> calls (snd (send r out (run ops (fresh_notifier name ic (Some 0) h))))
       = calls (run ops (fresh_notifier name ic (Some 0) h))
   \<and> filter is_Send_call
       (calls (snd (send r out (run ops (fresh_notifier name ic (Some 0) h))))) = []"
proof -
  let ?w = "run ops (fresh_notifier name ic (Some 0) h)"
  have inv: "current_notifications ?w = [] \<and> filter is_Send_call (calls ?w) = []
       \<and> notification_limit ?w = Some 0"
    by (rule zero_limit_run) (simp_all add: fresh_notifier_def)
  then show ?thesis by (simp add: send_blocked init_def)
qed



end
